theory Spec2Isabelle
  imports Main "HOL-Library.Word"
begin

unbundle bit_operations_syntax

section \<open>Python values and exceptions\<close>

text \<open>
  The values a result row can carry, and the row itself. \<open>fetchone\<close> is typed \<open>Any\<close>
  in the source, so the fetched record is a value like any other: \<open>None\<close> when the
  result set is exhausted, a tuple (or list) of column values otherwise. A float is
  its IEEE 754 binary64 bit pattern.
\<close>

datatype pyval =
    PNone
  | PBool bool
  | PInt int
  | PFloat "64 word"
  | PStr string
  | PList "pyval list"
  | PTuple "pyval list"
  | PDict "(pyval \<times> pyval) list"
  | PSet "pyval list"

text \<open>
  Python's \<open>bool(x)\<close>, which is what \<open>not x\<close> negates: \<open>None\<close>, \<open>False\<close>, a
  numeric zero and an empty string or container are false, everything else is true.
  A float is zero when all bits but the sign bit are clear (\<open>0.0\<close> and \<open>-0.0\<close>).
\<close>

fun py_bool :: "pyval \<Rightarrow> bool" where
  "py_bool PNone = False"
| "py_bool (PBool b) = b"
| "py_bool (PInt i) = (i \<noteq> 0)"
| "py_bool (PFloat w) = (w AND 0x7FFFFFFFFFFFFFFF \<noteq> 0)"
| "py_bool (PStr s) = (s \<noteq> [])"
| "py_bool (PList xs) = (xs \<noteq> [])"
| "py_bool (PTuple xs) = (xs \<noteq> [])"
| "py_bool (PDict kvs) = (kvs \<noteq> [])"
| "py_bool (PSet xs) = (xs \<noteq> [])"

text \<open>An exception is its class name and its message.\<close>

datatype pyexc = PyExc string string

definition AirflowException :: "string \<Rightarrow> pyexc" where
  "AirflowException msg = PyExc ''AirflowException'' msg"

section \<open>The operator and what it touches\<close>

text \<open>
  One record holds everything \<open>execute\<close> can read or write: the two attributes the
  constructor sets on \<open>self\<close>, the lines sent to \<open>self.log\<close> (format string and
  arguments, the \<open>%s\<close> rendering left unevaluated), the number of database sessions
  that are open, and the SQL statements sent to the broker so far.
\<close>

record state =
  self_sql :: string
  self_druid_broker_conn_id :: string
  log_lines :: "(string \<times> pyval list) list"
  open_sessions :: nat
  statements :: "string list"

definition log_info :: "string \<Rightarrow> pyval list \<Rightarrow> state \<Rightarrow> state" where
  "log_info fmt args s = s\<lparr>log_lines := log_lines s @ [(fmt, args)]\<rparr>"

text \<open>
  \<open>__init__(self, sql, druid_broker_conn_id='druid_broker_default')\<close>: the second
  argument is optional. The constructor of the base class, which is handed the same
  \<open>sql\<close>, is not among the sources; the two assignments made here come after it.
\<close>

definition init :: "string \<Rightarrow> string option \<Rightarrow> state \<Rightarrow> state" where
  "init sql druid_broker_conn_id s =
     s\<lparr>self_druid_broker_conn_id :=
          (case druid_broker_conn_id of None \<Rightarrow> ''druid_broker_default'' | Some c \<Rightarrow> c),
       self_sql := sql\<rparr>"

section \<open>The connection provider\<close>

text \<open>
  Modelled from the spec: the hook class \<open>DruidDbApiHook\<close> and the connection and
  cursor objects it hands out are not among the sources. The spec gives the outbound
  interface as \<open>resolve(connectionId) -> Session\<close>, where a session exposes
  \<open>executeQuery(sql) -> ResultRow\<close> and \<open>close()\<close>; resolving may fail with a
  connectivity error and running the query with a query error. The broker is therefore
  a parameter: \<open>resolve\<close> tells whether a connection id resolves (\<open>None\<close>) or fails,
  and \<open>run\<close> gives for each SQL text either the error the broker raises or the result
  set, row by row, where fetching a row may itself raise.
\<close>

record engine =
  resolve :: "string \<Rightarrow> pyexc option"
  run :: "string \<Rightarrow> pyexc + (pyexc + pyval) list"

datatype DruidDbApiHook = DruidDbApiHook string

datatype connection = Connection string

type_synonym cursor = "(pyexc + pyval) list"

text \<open>
  Modelled from the spec: \<open>get_conn\<close> resolves the hook's connection id to a session.
  A session that was opened counts as open until it is closed.
\<close>

definition get_conn :: "engine \<Rightarrow> DruidDbApiHook \<Rightarrow> state \<Rightarrow> (pyexc + connection) \<times> state" where
  "get_conn eng hook s =
     (case hook of DruidDbApiHook conn_id \<Rightarrow>
        (case resolve eng conn_id of
           Some e \<Rightarrow> (Inl e, s)
         | None \<Rightarrow> (Inr (Connection conn_id), s\<lparr>open_sessions := open_sessions s + 1\<rparr>)))"

text \<open>
  Modelled from the spec: entering the connection gives a cursor with nothing to
  fetch yet; leaving it closes the session and lets a pending exception through
  (\<open>close()\<close> returns nothing).
\<close>

definition conn_enter :: "connection \<Rightarrow> cursor" where
  "conn_enter conn = []"

definition conn_exit :: "connection \<Rightarrow> state \<Rightarrow> state" where
  "conn_exit conn s = s\<lparr>open_sessions := open_sessions s - 1\<rparr>"

text \<open>
  Modelled from the spec: \<open>cur.execute(sql)\<close> sends the statement and either raises
  the broker's error or holds the result set; \<open>cur.fetchone()\<close> gives the next row,
  or \<open>None\<close> when there is none left.
\<close>

definition cur_execute :: "engine \<Rightarrow> string \<Rightarrow> cursor \<Rightarrow> state \<Rightarrow> (pyexc + cursor) \<times> state" where
  "cur_execute eng sql cur s =
     (let s' = s\<lparr>statements := statements s @ [sql]\<rparr>
      in case run eng sql of
           Inl e \<Rightarrow> (Inl e, s')
         | Inr rows \<Rightarrow> (Inr rows, s'))"

fun cur_fetchone :: "cursor \<Rightarrow> pyexc + pyval \<times> cursor" where
  "cur_fetchone [] = Inr (PNone, [])"
| "cur_fetchone (Inl e # rest) = Inl e"
| "cur_fetchone (Inr row # rest) = Inr (row, rest)"

section \<open>DruidCheckOperator\<close>

definition get_db_hook :: "state \<Rightarrow> DruidDbApiHook" where
  "get_db_hook s = DruidDbApiHook (self_druid_broker_conn_id s)"

text \<open>
  \<open>with self.get_db_hook().get_conn() as cur: cur.execute(sql); return cur.fetchone()\<close>.
  When \<open>get_conn\<close> raises there is nothing to leave. Otherwise the body runs and the
  connection is left whether the body returned or raised.
\<close>

definition get_first :: "engine \<Rightarrow> string \<Rightarrow> state \<Rightarrow> (pyexc + pyval) \<times> state" where
  "get_first eng sql s =
     (case get_conn eng (get_db_hook s) s of
        (Inl e, s1) \<Rightarrow> (Inl e, s1)
      | (Inr conn, s1) \<Rightarrow>
          (let cur = conn_enter conn;
               body = (case cur_execute eng sql cur s1 of
                         (Inl e, s2) \<Rightarrow> (Inl e, s2)
                       | (Inr cur', s2) \<Rightarrow>
                           (case cur_fetchone cur' of
                              Inl e \<Rightarrow> (Inl e, s2)
                            | Inr (row, cur'') \<Rightarrow> (Inr row, s2)))
           in (fst body, conn_exit conn (snd body))))"

text \<open>
  \<open>execute(self, context=None)\<close>: log the query, fetch the first row, log it, raise
  when \<open>not record\<close>, otherwise log success and return \<open>None\<close>.
\<close>

type_synonym exec_context = "(pyval \<times> pyval) list option"

definition execute :: "engine \<Rightarrow> exec_context \<Rightarrow> state \<Rightarrow> (pyexc + unit) \<times> state" where
  "execute eng ctx s =
     (let s1 = log_info ''Executing SQL check: %s'' [PStr (self_sql s)] s
      in case get_first eng (self_sql s1) s1 of
           (Inl e, s2) \<Rightarrow> (Inl e, s2)
         | (Inr recd, s2) \<Rightarrow>
             (let s3 = log_info ''Record: %s'' [recd] s2
              in if \<not> py_bool recd
                 then (Inl (AirflowException ''The query returned None''), s3)
                 else (Inr (), log_info ''Success.'' [] s3)))"

text \<open>A state before any operator was constructed, and two brokers to run against.\<close>

definition blank :: state where
  "blank = \<lparr>self_sql = [], self_druid_broker_conn_id = [], log_lines = [],
            open_sessions = 0, statements = []\<rparr>"

definition answering :: "(pyexc + pyval) list \<Rightarrow> engine" where
  "answering rows = \<lparr>resolve = (\<lambda>conn_id. None), run = (\<lambda>sql. Inr rows)\<rparr>"

definition rejecting :: "pyexc \<Rightarrow> engine" where
  "rejecting e = \<lparr>resolve = (\<lambda>conn_id. None), run = (\<lambda>sql. Inl e)\<rparr>"

text \<open>
  A result row is an ordered sequence of values: a tuple, as the DB-API hands it
  out, or a list.
\<close>

fun is_row :: "pyval \<Rightarrow> bool" where
  "is_row (PTuple vs) = True"
| "is_row (PList vs) = True"
| "is_row v = False"

fun row_values :: "pyval \<Rightarrow> pyval list" where
  "row_values (PTuple vs) = vs"
| "row_values (PList vs) = vs"
| "row_values v = []"

text \<open>What \<open>fetchone\<close> can hand back: \<open>None\<close> or a row.\<close>

definition is_record :: "pyval \<Rightarrow> bool" where
  "is_record r = (if r = PNone then True else is_row r)"

section \<open>What get_first and execute compute\<close>

lemma get_first_outcome:
  "fst (get_first eng sql s) =
     (case resolve eng (self_druid_broker_conn_id s) of
        Some e \<Rightarrow> Inl e
      | None \<Rightarrow>
          (case run eng sql of
             Inl e \<Rightarrow> Inl e
           | Inr rows \<Rightarrow>
               (case cur_fetchone rows of Inl e \<Rightarrow> Inl e | Inr (row, rest) \<Rightarrow> Inr row)))"
  by (simp add: get_first_def get_conn_def get_db_hook_def cur_execute_def conn_enter_def
      split: option.splits sum.splits prod.splits)

lemma get_first_log_info:
  "fst (get_first eng sql (log_info fmt args s)) = fst (get_first eng sql s)"
  by (simp add: get_first_outcome log_info_def)

lemma execute_outcome:
  "fst (execute eng ctx s) =
     (case fst (get_first eng (self_sql s) s) of
        Inl e \<Rightarrow> Inl e
      | Inr recd \<Rightarrow>
          if py_bool recd then Inr () else Inl (AirflowException ''The query returned None''))"
proof -
  let ?s1 = "log_info ''Executing SQL check: %s'' [PStr (self_sql s)] s"
  have sql: "self_sql ?s1 = self_sql s"
    by (simp add: log_info_def)
  have same: "fst (get_first eng (self_sql s) ?s1) = fst (get_first eng (self_sql s) s)"
    by (rule get_first_log_info)
  obtain r s2 where g: "get_first eng (self_sql s) ?s1 = (r, s2)"
    by (cases "get_first eng (self_sql s) ?s1")
  with same have r: "fst (get_first eng (self_sql s) s) = r"
    by simp
  show ?thesis
    unfolding r execute_def Let_def sql g
    by (cases r) simp_all
qed

lemmas run_defs = answering_def rejecting_def init_def blank_def AirflowException_def

lemma get_first_self:
  "self_sql (snd (get_first eng sql s)) = self_sql s \<and>
   self_druid_broker_conn_id (snd (get_first eng sql s)) = self_druid_broker_conn_id s"
  by (simp add: get_first_def get_conn_def get_db_hook_def cur_execute_def conn_enter_def
      conn_exit_def Let_def split: option.splits sum.splits prod.splits)

lemma execute_self:
  "self_sql (snd (execute eng ctx s)) = self_sql s \<and>
   self_druid_broker_conn_id (snd (execute eng ctx s)) = self_druid_broker_conn_id s"
  using get_first_self [of eng "self_sql s"
      "log_info ''Executing SQL check: %s'' [PStr (self_sql s)] s"]
  by (auto simp add: execute_def log_info_def Let_def split: prod.splits sum.splits)

lemma py_bool_row: "is_row r \<Longrightarrow> py_bool r = (row_values r \<noteq> [])"
  by (cases r) simp_all

section \<open>Rows with a falsy value\<close>

text \<open>
  C1. The claim: whenever the fetched row holds at least one falsy value, \<open>execute\<close>
  raises. The code tests the row, not its values: for the query
  \<open>SELECT a, b FROM t LIMIT 1\<close> answered by the row \<open>(1, "")\<close>, whose second value
  is falsy, \<open>execute\<close> returns normally.
\<close>

theorem execute_passes_row_with_empty_string:
  "\<not> list_all py_bool [PInt 1, PStr ''''] \<and>
   fst (execute (answering [Inr (PTuple [PInt 1, PStr ''''])]) None
         (init ''SELECT a, b FROM t LIMIT 1'' None blank)) = Inr ()"
  by (simp add: execute_outcome get_first_outcome run_defs)

text \<open>
  C2. The claim: for \<open>SELECT COUNT(*) FROM foo\<close>, the row \<open>[0]\<close> fails the check and
  the row \<open>[5]\<close> passes it. In the code both rows pass.
\<close>

theorem execute_count_zero_and_five_pass:
  "fst (execute (answering [Inr (PTuple [PInt 0])]) None
         (init ''SELECT COUNT(*) FROM foo'' None blank)) = Inr () \<and>
   fst (execute (answering [Inr (PTuple [PInt 5])]) None
         (init ''SELECT COUNT(*) FROM foo'' None blank)) = Inr ()"
  by (simp add: execute_outcome get_first_outcome run_defs)

section \<open>Rows whose values are all truthy\<close>

text \<open>
  C3. Every fetched result row in which every value is truthy (negative numbers,
  whitespace-only strings, the string "0" and non-empty containers among them) makes
  \<open>execute\<close> succeed; it returns \<open>None\<close>, so the absence of a raised failure is the
  pass. The spec's data model lets an empty row stand for "no row matched", and the
  sentence is about the case that a row is returned: a fetched row is a row that
  holds at least one value.
\<close>

theorem execute_truthy_row_passes:
  assumes "fst (get_first eng (self_sql s) s) = Inr r"
    and "is_row r"
    and "row_values r \<noteq> []"
    and "list_all py_bool (row_values r)"
  shows "fst (execute eng ctx s) = Inr ()"
  using assms by (simp add: execute_outcome py_bool_row)

theorem execute_truthy_row_passes_witness:
  "fst (get_first
         (answering [Inr (PTuple [PInt (- 1), PStr '' '', PStr ''0'', PList [PInt 1]]),
                     Inr (PTuple [PInt 0])])
         (self_sql (init ''SELECT a, b, c, d FROM t'' None blank))
         (init ''SELECT a, b, c, d FROM t'' None blank))
     = Inr (PTuple [PInt (- 1), PStr '' '', PStr ''0'', PList [PInt 1]]) \<and>
   is_row (PTuple [PInt (- 1), PStr '' '', PStr ''0'', PList [PInt 1]]) \<and>
   row_values (PTuple [PInt (- 1), PStr '' '', PStr ''0'', PList [PInt 1]]) \<noteq> [] \<and>
   list_all py_bool (row_values (PTuple [PInt (- 1), PStr '' '', PStr ''0'', PList [PInt 1]])) \<and>
   fst (execute
         (answering [Inr (PTuple [PInt (- 1), PStr '' '', PStr ''0'', PList [PInt 1]]),
                     Inr (PTuple [PInt 0])])
         None (init ''SELECT a, b, c, d FROM t'' None blank)) = Inr ()"
proof -
  let ?r = "PTuple [PInt (- 1), PStr '' '', PStr ''0'', PList [PInt 1]]"
  let ?eng = "answering [Inr ?r, Inr (PTuple [PInt 0])]"
  let ?s = "init ''SELECT a, b, c, d FROM t'' None blank"
  have h1: "fst (get_first ?eng (self_sql ?s) ?s) = Inr ?r"
    by (simp add: get_first_outcome run_defs)
  have h2: "is_row ?r" and h3: "row_values ?r \<noteq> []"
    and h4: "list_all py_bool (row_values ?r)"
    by simp_all
  from execute_truthy_row_passes [OF h1 h2 h3 h4, of None] h1 h2 h3 h4
  show ?thesis by simp
qed

section \<open>No row, and the exact condition of failure\<close>

text \<open>
  C4. When the connection resolves and the query yields an empty result set,
  \<open>fetchone\<close> gives \<open>None\<close> and \<open>execute\<close> raises an \<open>AirflowException\<close> whose
  message, "The query returned None", says that no row came back.
\<close>

theorem execute_no_row_fails:
  assumes "resolve eng (self_druid_broker_conn_id s) = None"
    and "run eng (self_sql s) = Inr []"
  shows "fst (get_first eng (self_sql s) s) = Inr PNone \<and>
         fst (execute eng ctx s) = Inl (AirflowException ''The query returned None'')"
  using assms by (simp add: execute_outcome get_first_outcome)

theorem execute_no_row_fails_witness:
  "resolve (answering []) (self_druid_broker_conn_id (init ''SELECT COUNT(*) FROM foo'' None blank))
     = None \<and>
   run (answering []) (self_sql (init ''SELECT COUNT(*) FROM foo'' None blank)) = Inr [] \<and>
   fst (get_first (answering []) (self_sql (init ''SELECT COUNT(*) FROM foo'' None blank))
         (init ''SELECT COUNT(*) FROM foo'' None blank)) = Inr PNone \<and>
   fst (execute (answering []) None (init ''SELECT COUNT(*) FROM foo'' None blank))
     = Inl (AirflowException ''The query returned None'')"
proof -
  let ?eng = "answering []"
  let ?s = "init ''SELECT COUNT(*) FROM foo'' None blank"
  have h1: "resolve ?eng (self_druid_broker_conn_id ?s) = None"
    by (simp add: answering_def)
  have h2: "run ?eng (self_sql ?s) = Inr []"
    by (simp add: answering_def)
  from execute_no_row_fails [OF h1 h2, of None] h1 h2
  show ?thesis by simp
qed

text \<open>
  C5. When \<open>get_first\<close> hands back a record (\<open>None\<close> or a row), \<open>execute\<close> raises
  exactly when the record is \<open>None\<close> or a row without values, and then always the
  same \<open>AirflowException\<close> with the message "The query returned None"; on every row
  that holds a value it returns, whatever the values are.
\<close>

theorem execute_raises_iff_no_record:
  assumes "fst (get_first eng (self_sql s) s) = Inr r"
    and "is_record r"
  shows "fst (execute eng ctx s) =
           (if r = PNone \<or> row_values r = []
            then Inl (AirflowException ''The query returned None'')
            else Inr ())"
proof (cases "r = PNone")
  case True
  with assms(1) show ?thesis
    by (simp add: execute_outcome)
next
  case False
  with assms(2) have "is_row r"
    by (simp add: is_record_def)
  with assms(1) False show ?thesis
    by (simp add: execute_outcome py_bool_row)
qed

theorem execute_raises_iff_no_record_witness:
  "fst (get_first (answering [Inr (PList [PBool False, PNone, PFloat 0])])
         (self_sql (init ''SELECT a, b, c FROM t'' (Some ''druid_broker_eu'') blank))
         (init ''SELECT a, b, c FROM t'' (Some ''druid_broker_eu'') blank))
     = Inr (PList [PBool False, PNone, PFloat 0]) \<and>
   is_record (PList [PBool False, PNone, PFloat 0]) \<and>
   fst (execute (answering [Inr (PList [PBool False, PNone, PFloat 0])]) None
         (init ''SELECT a, b, c FROM t'' (Some ''druid_broker_eu'') blank)) = Inr ()"
proof -
  let ?r = "PList [PBool False, PNone, PFloat 0]"
  let ?eng = "answering [Inr ?r]"
  let ?s = "init ''SELECT a, b, c FROM t'' (Some ''druid_broker_eu'') blank"
  have h1: "fst (get_first ?eng (self_sql ?s) ?s) = Inr ?r"
    by (simp add: get_first_outcome run_defs)
  have h2: "is_record ?r"
    by (simp add: is_record_def)
  from execute_raises_iff_no_record [OF h1 h2, of None] h1 h2
  show ?thesis by simp
qed

section \<open>Errors of the broker\<close>

text \<open>
  C6. When the connection resolves and running the query raises an error of the
  broker, that very exception leaves \<open>get_first\<close> and then \<open>execute\<close>: it is neither
  swallowed nor replaced by the exception of a failed check.
\<close>

theorem query_error_propagates:
  assumes "resolve eng (self_druid_broker_conn_id s) = None"
    and "run eng (self_sql s) = Inl e"
  shows "fst (get_first eng (self_sql s) s) = Inl e \<and> fst (execute eng ctx s) = Inl e"
  using assms by (simp add: execute_outcome get_first_outcome)

theorem query_error_propagates_witness:
  "resolve (rejecting (PyExc ''ProgrammingError'' ''Unknown table foo''))
     (self_druid_broker_conn_id (init ''SELECT COUNT(*) FROM foo'' None blank)) = None \<and>
   run (rejecting (PyExc ''ProgrammingError'' ''Unknown table foo''))
     (self_sql (init ''SELECT COUNT(*) FROM foo'' None blank))
     = Inl (PyExc ''ProgrammingError'' ''Unknown table foo'') \<and>
   fst (get_first (rejecting (PyExc ''ProgrammingError'' ''Unknown table foo''))
         (self_sql (init ''SELECT COUNT(*) FROM foo'' None blank))
         (init ''SELECT COUNT(*) FROM foo'' None blank))
     = Inl (PyExc ''ProgrammingError'' ''Unknown table foo'') \<and>
   fst (execute (rejecting (PyExc ''ProgrammingError'' ''Unknown table foo'')) None
         (init ''SELECT COUNT(*) FROM foo'' None blank))
     = Inl (PyExc ''ProgrammingError'' ''Unknown table foo'')"
proof -
  let ?e = "PyExc ''ProgrammingError'' ''Unknown table foo''"
  let ?eng = "rejecting ?e"
  let ?s = "init ''SELECT COUNT(*) FROM foo'' None blank"
  have h1: "resolve ?eng (self_druid_broker_conn_id ?s) = None"
    by (simp add: rejecting_def)
  have h2: "run ?eng (self_sql ?s) = Inl ?e"
    by (simp add: rejecting_def)
  from query_error_propagates [OF h1 h2, of None] h1 h2
  show ?thesis by simp
qed

section \<open>The session\<close>

text \<open>
  C7. Whatever the broker does (the connection does not resolve, the query raises,
  fetching raises, a row or \<open>None\<close> comes back), as many sessions are open when
  \<open>get_first\<close> exits as were open when it was entered: the session it acquired has
  been released. The same holds for \<open>execute\<close>.
\<close>

theorem get_first_releases_session:
  "open_sessions (snd (get_first eng sql s)) = open_sessions s \<and>
   open_sessions (snd (execute eng ctx s)) = open_sessions s"
proof
  show g: "open_sessions (snd (get_first eng sql s)) = open_sessions s" for sql s
    by (simp add: get_first_def get_conn_def get_db_hook_def cur_execute_def conn_enter_def
        conn_exit_def Let_def split: option.splits sum.splits prod.splits)
  let ?s1 = "log_info ''Executing SQL check: %s'' [PStr (self_sql s)] s"
  have "open_sessions (snd (get_first eng (self_sql ?s1) ?s1)) = open_sessions s"
    by (simp add: g) (simp add: log_info_def)
  then show "open_sessions (snd (execute eng ctx s)) = open_sessions s"
    by (auto simp add: execute_def log_info_def Let_def split: prod.splits sum.splits)
qed

section \<open>The first row\<close>

text \<open>
  C8. When the connection resolves and the given SQL yields a result set whose first
  row can be fetched, \<open>get_first\<close> sends exactly that SQL to the broker and returns
  that first row, whatever rows follow it.
\<close>

theorem get_first_returns_first_row:
  assumes "resolve eng (self_druid_broker_conn_id s) = None"
    and "run eng sql = Inr (Inr row # rest)"
  shows "fst (get_first eng sql s) = Inr row \<and>
         statements (snd (get_first eng sql s)) = statements s @ [sql]"
  using assms
  by (simp add: get_first_def get_conn_def get_db_hook_def cur_execute_def conn_enter_def
      conn_exit_def Let_def)

theorem get_first_returns_first_row_witness:
  "resolve (answering [Inr (PTuple [PInt 7]), Inr (PTuple [PInt 8]), Inl (PyExc ''Error'' ''lost'')])
     (self_druid_broker_conn_id (init ''SELECT n FROM t'' None blank)) = None \<and>
   run (answering [Inr (PTuple [PInt 7]), Inr (PTuple [PInt 8]), Inl (PyExc ''Error'' ''lost'')])
     ''SELECT n FROM t''
     = Inr (Inr (PTuple [PInt 7]) # [Inr (PTuple [PInt 8]), Inl (PyExc ''Error'' ''lost'')]) \<and>
   fst (get_first
         (answering [Inr (PTuple [PInt 7]), Inr (PTuple [PInt 8]), Inl (PyExc ''Error'' ''lost'')])
         ''SELECT n FROM t'' (init ''SELECT n FROM t'' None blank)) = Inr (PTuple [PInt 7]) \<and>
   statements (snd (get_first
         (answering [Inr (PTuple [PInt 7]), Inr (PTuple [PInt 8]), Inl (PyExc ''Error'' ''lost'')])
         ''SELECT n FROM t'' (init ''SELECT n FROM t'' None blank))) = [''SELECT n FROM t'']"
proof -
  let ?rest = "[Inr (PTuple [PInt 8]), Inl (PyExc ''Error'' ''lost'')]"
  let ?eng = "answering (Inr (PTuple [PInt 7]) # ?rest)"
  let ?s = "init ''SELECT n FROM t'' None blank"
  have h1: "resolve ?eng (self_druid_broker_conn_id ?s) = None"
    by (simp add: answering_def)
  have h2: "run ?eng ''SELECT n FROM t'' = Inr (Inr (PTuple [PInt 7]) # ?rest)"
    by (simp add: answering_def)
  have st: "statements ?s = []"
    by (simp add: init_def blank_def)
  from get_first_returns_first_row [OF h1 h2] h1 h2 st
  show ?thesis by simp
qed

section \<open>The configuration and the context\<close>

text \<open>
  C9. After \<open>execute\<close>, whether it returned or raised, \<open>sql\<close> and
  \<open>druid_broker_conn_id\<close> hold what the constructor was given (the default
  connection id when none was given).
\<close>

theorem execute_keeps_configuration:
  "self_sql (snd (execute eng ctx (init sql conn_id s0))) = sql \<and>
   self_druid_broker_conn_id (snd (execute eng ctx (init sql conn_id s0)))
     = (case conn_id of None \<Rightarrow> ''druid_broker_default'' | Some c \<Rightarrow> c)"
  by (simp add: execute_self) (simp add: init_def)

text \<open>
  C10. The outcome of \<open>execute\<close> depends on the fetched record only: two runs in which
  \<open>get_first\<close> ends the same way end the same way, whatever the two contexts are.
\<close>

theorem execute_ignores_context:
  assumes "fst (get_first eng1 (self_sql s1) s1) = fst (get_first eng2 (self_sql s2) s2)"
  shows "fst (execute eng1 ctx1 s1) = fst (execute eng2 ctx2 s2)"
  using assms by (simp add: execute_outcome)

theorem execute_ignores_context_witness:
  "fst (get_first (answering [Inr (PTuple [PInt 0])])
         (self_sql (init ''SELECT COUNT(*) FROM foo'' None blank))
         (init ''SELECT COUNT(*) FROM foo'' None blank))
     = fst (get_first (answering [Inr (PTuple [PInt 0]), Inr (PTuple [PInt 1])])
         (self_sql (init ''SELECT n FROM foo'' (Some ''druid_broker_eu'') blank))
         (init ''SELECT n FROM foo'' (Some ''druid_broker_eu'') blank)) \<and>
   fst (execute (answering [Inr (PTuple [PInt 0])]) None
         (init ''SELECT COUNT(*) FROM foo'' None blank))
     = fst (execute (answering [Inr (PTuple [PInt 0]), Inr (PTuple [PInt 1])])
         (Some [(PStr ''ds'', PStr ''2020-01-01'')])
         (init ''SELECT n FROM foo'' (Some ''druid_broker_eu'') blank))"
proof -
  let ?eng1 = "answering [Inr (PTuple [PInt 0])]"
  let ?eng2 = "answering [Inr (PTuple [PInt 0]), Inr (PTuple [PInt 1])]"
  let ?s1 = "init ''SELECT COUNT(*) FROM foo'' None blank"
  let ?s2 = "init ''SELECT n FROM foo'' (Some ''druid_broker_eu'') blank"
  have h: "fst (get_first ?eng1 (self_sql ?s1) ?s1) = fst (get_first ?eng2 (self_sql ?s2) ?s2)"
    by (simp add: get_first_outcome run_defs)
  from execute_ignores_context [OF h, of None "Some [(PStr ''ds'', PStr ''2020-01-01'')]"] h
  show ?thesis by simp
qed

end
